theory Spec2Isabelle
  imports Complex_Main "HOL-Library.Word" "HOL-Library.Multiset"
begin

section \<open>Data model of the job search view\<close>

text \<open>
  The search view is the React component \<open>JobSearch\<close>. Its strings are JavaScript strings,
  that is sequences of 16-bit code units; the fixed texts of the source (toast messages,
  the status \<open>applied\<close>, the query key \<open>applications\<close>) are written as literals and
  converted with \<open>lit\<close>.
\<close>

type_synonym js_string = "16 word list"

definition lit :: "string \<Rightarrow> js_string" where
  "lit s = map (\<lambda>c. of_nat (of_char c)) s"

text \<open>
  The interface \<open>Job\<close>. The field \<open>_id\<close> is \<open>ident\<close> here and \<open>location\<close> is
  \<open>job_location\<close>; an optional field (\<open>?:\<close>) is an \<open>option\<close>. The numbers come from a
  JSON response, so they are finite; a finite number is modelled by its exact rational
  value (the sign of a difference of two finite doubles is the sign of the exact
  difference).
\<close>

record job =
  ident :: js_string
  title :: js_string
  company :: js_string
  job_location :: js_string
  job_type :: js_string
  description :: js_string
  salary_min :: "rat option"
  salary_max :: "rat option"
  url :: js_string
  source :: js_string
  match_score :: "rat option"
  posted_date :: "js_string option"

datatype sort_mode = Relevance | Salary | Date

text \<open>The argument of \<open>createApplicationMutation.mutate\<close>.\<close>

record application_data =
  job_id :: js_string
  status :: "js_string option"
  "notes" :: "js_string option"
  tags :: "js_string list option"

text \<open>
  What a handler does besides updating the component state: toasts, the search request
  (\<open>refetch\<close>), the create-application request (\<open>mutate\<close>) and the cache invalidation.
\<close>

datatype effect =
    ToastSuccess js_string
  | ToastError js_string
  | Refetch
  | Mutate application_data
  | InvalidateQueries "js_string list"

text \<open>The \<open>useState\<close> cells of the component.\<close>

record view_state =
  "keywords" :: js_string
  location :: js_string
  jobType :: js_string
  minSalary :: js_string
  maxSalary :: js_string
  hasSearched :: bool
  currentPage :: int
  sortBy :: sort_mode
  savedJobs :: "js_string set"
  applyingJobId :: "js_string option"
  showApplyModal :: bool
  applyNotes :: js_string

definition itemsPerPage :: int where
  "itemsPerPage = 10"

definition initial_state :: view_state where
  "initial_state = \<lparr>keywords = [], location = [], jobType = [], minSalary = [],
     maxSalary = [], hasSearched = False, currentPage = 1, sortBy = Relevance,
     savedJobs = {}, applyingJobId = None, showApplyModal = False, applyNotes = []\<rparr>"

section \<open>Saved jobs\<close>

text \<open>
  \<open>toggleSaveJob\<close> copies the set, deletes the identifier when the copy has it and adds
  it otherwise, shows a toast and stores the copy.
\<close>

definition toggleSaveJob :: "js_string \<Rightarrow> view_state \<Rightarrow> effect list \<times> view_state" where
  "toggleSaveJob jobId st =
     (if jobId \<in> savedJobs st
      then ([ToastSuccess (lit ''Removed from saved'')],
            st\<lparr>savedJobs := savedJobs st - {jobId}\<rparr>)
      else ([ToastSuccess (lit ''Saved for later!'')],
            st\<lparr>savedJobs := insert jobId (savedJobs st)\<rparr>))"

section \<open>Sort control\<close>

text \<open>The \<open>onChange\<close> handler of the sort select: \<open>setSortBy\<close>, then \<open>setCurrentPage(1)\<close>.\<close>

definition onSortChange :: "sort_mode \<Rightarrow> view_state \<Rightarrow> view_state" where
  "onSortChange m st = st\<lparr>sortBy := m, currentPage := 1\<rparr>"

section \<open>Search form\<close>

text \<open>
  \<open>String.prototype.trim\<close> removes the white space and line terminators of ECMAScript
  from both ends of a string. \<open>isWhiteSpace\<close> lists them as code units: TAB, LF, VT, FF,
  CR, SPACE, NBSP, U+1680, U+2000 to U+200A, U+2028, U+2029, U+202F, U+205F, U+3000 and
  U+FEFF.
\<close>

definition isWhiteSpace :: "16 word \<Rightarrow> bool" where
  "isWhiteSpace c =
     ((0x0009 \<le> c \<and> c \<le> 0x000D) \<or> c = 0x0020 \<or> c = 0x00A0 \<or> c = 0x1680
      \<or> (0x2000 \<le> c \<and> c \<le> 0x200A) \<or> c = 0x2028 \<or> c = 0x2029 \<or> c = 0x202F
      \<or> c = 0x205F \<or> c = 0x3000 \<or> c = 0xFEFF)"

definition trim :: "js_string \<Rightarrow> js_string" where
  "trim s = rev (dropWhile isWhiteSpace (rev (dropWhile isWhiteSpace s)))"

text \<open>
  \<open>handleSearch\<close>: when the trimmed keywords are the empty string (which is falsy) it shows
  an error toast and returns; otherwise it sets the page to 1, marks the view as
  searched and calls \<open>refetch\<close>.
\<close>

definition handleSearch :: "view_state \<Rightarrow> effect list \<times> view_state" where
  "handleSearch st =
     (if trim (keywords st) = []
      then ([ToastError (lit ''Please enter job keywords'')], st)
      else ([Refetch], st\<lparr>currentPage := 1, hasSearched := True\<rparr>))"

section \<open>Application submission\<close>

text \<open>\<open>handleApplyClick\<close> opens the form for one job.\<close>

definition handleApplyClick :: "js_string \<Rightarrow> view_state \<Rightarrow> view_state" where
  "handleApplyClick jobId st = st\<lparr>applyingJobId := Some jobId, showApplyModal := True\<rparr>"

text \<open>
  \<open>handleApplySubmit\<close> returns at once when \<open>applyingJobId\<close> is falsy, that is \<open>null\<close> or
  the empty string; otherwise it calls \<open>mutate\<close> with the job identifier, the status
  \<open>applied\<close> and the note.
\<close>

definition handleApplySubmit :: "view_state \<Rightarrow> effect list \<times> view_state" where
  "handleApplySubmit st =
     (case applyingJobId st of
        None \<Rightarrow> ([], st)
      | Some jobId \<Rightarrow>
          if jobId = [] then ([], st)
          else ([Mutate \<lparr>job_id = jobId, status = Some (lit ''applied''),
                   notes = Some (applyNotes st), tags = None\<rparr>], st))"

text \<open>
  The rejection value handed to \<open>onError\<close> is typed \<open>any\<close>; the handler reads its
  \<open>message\<close> only. \<open>or_else\<close> is the operator \<open>||\<close> on a string that may be undefined:
  the right operand is taken when the left one is undefined or empty.
\<close>

record api_error =
  message :: "js_string option"

definition or_else :: "js_string option \<Rightarrow> js_string \<Rightarrow> js_string" where
  "or_else x d = (case x of None \<Rightarrow> d | Some s \<Rightarrow> if s = [] then d else s)"

text \<open>The callbacks of \<open>createApplicationMutation\<close>.\<close>

definition onSuccess :: "view_state \<Rightarrow> effect list \<times> view_state" where
  "onSuccess st =
     ([ToastSuccess (lit ''Application created!''), InvalidateQueries [lit ''applications'']],
      st\<lparr>showApplyModal := False, applyNotes := [], applyingJobId := None\<rparr>)"

definition onError :: "api_error \<Rightarrow> view_state \<Rightarrow> effect list \<times> view_state" where
  "onError error st =
     ([ToastError (or_else (message error) (lit ''Failed to create application''))], st)"

text \<open>The request either resolves or rejects; the mutation then runs the matching callback.\<close>

datatype mutation_result = Resolved | Rejected api_error

fun settle :: "mutation_result \<Rightarrow> view_state \<Rightarrow> effect list \<times> view_state" where
  "settle Resolved st = onSuccess st"
| "settle (Rejected error) st = onError error st"

section \<open>Ranking\<close>

text \<open>
  A JavaScript number that may be \<open>NaN\<close>: the value of a comparator, and of
  \<open>getTime()\<close>, which is \<open>NaN\<close> for a date that did not parse.
\<close>

datatype js_number = NaN | Num rat

fun js_minus :: "js_number \<Rightarrow> js_number \<Rightarrow> js_number" where
  "js_minus (Num a) (Num b) = Num (a - b)"
| "js_minus _ _ = NaN"

text \<open>\<open>x || 0\<close> on an optional number: 0 when \<open>x\<close> is undefined or 0, else \<open>x\<close>.\<close>

definition or0 :: "rat option \<Rightarrow> rat" where
  "or0 x = (case x of None \<Rightarrow> 0 | Some v \<Rightarrow> if v = 0 then 0 else v)"

text \<open>
  \<open>new Date(job.posted_date || 0).getTime()\<close>. An undefined or empty \<open>posted_date\<close> gives
  \<open>new Date(0)\<close>, whose time value is 0 (1 January 1970 UTC). The parsing of a date
  string belongs to the JavaScript runtime; it is the parameter \<open>getTime\<close>, the time
  value in milliseconds of \<open>new Date(s)\<close>, or \<open>NaN\<close>.
\<close>

definition postedTime :: "(js_string \<Rightarrow> js_number) \<Rightarrow> job \<Rightarrow> js_number" where
  "postedTime getTime j =
     (case posted_date j of
        None \<Rightarrow> Num 0
      | Some s \<Rightarrow> if s = [] then Num 0 else getTime s)"

text \<open>
  \<open>Array.prototype.sort\<close> with a comparator. The comparator's value \<open>v\<close> is read through
  \<open>SortCompare\<close>, which takes \<open>NaN\<close> as \<open>+0\<close>. The sort is stable, and for a consistent
  comparator its result is fixed by the language: the stable arrangement in which no
  element is followed by one that the comparator puts strictly before it. Insertion from
  the right end computes it. (For an inconsistent comparator the language leaves the
  order to the implementation.)
\<close>

definition sortCompare :: "('a \<Rightarrow> 'a \<Rightarrow> js_number) \<Rightarrow> 'a \<Rightarrow> 'a \<Rightarrow> rat" where
  "sortCompare comparefn x y = (case comparefn x y of NaN \<Rightarrow> 0 | Num v \<Rightarrow> v)"

fun insert_sorted :: "('a \<Rightarrow> 'a \<Rightarrow> js_number) \<Rightarrow> 'a \<Rightarrow> 'a list \<Rightarrow> 'a list" where
  "insert_sorted comparefn x [] = [x]"
| "insert_sorted comparefn x (y # ys) =
     (if sortCompare comparefn x y \<le> 0 then x # y # ys
      else y # insert_sorted comparefn x ys)"

definition Array_sort :: "('a \<Rightarrow> 'a \<Rightarrow> js_number) \<Rightarrow> 'a list \<Rightarrow> 'a list" where
  "Array_sort comparefn xs = foldr (insert_sorted comparefn) xs []"

text \<open>
  \<open>sortedJobs\<close>: a copy of \<open>jobs\<close>, sorted with the comparator of the mode. The mode
  \<open>relevance\<close> shares the \<open>default\<close> branch.
\<close>

fun comparator :: "(js_string \<Rightarrow> js_number) \<Rightarrow> sort_mode \<Rightarrow> job \<Rightarrow> job \<Rightarrow> js_number" where
  "comparator getTime Salary a b = Num (or0 (salary_max b) - or0 (salary_max a))"
| "comparator getTime Date a b = js_minus (postedTime getTime b) (postedTime getTime a)"
| "comparator getTime Relevance a b = Num (or0 (match_score b) - or0 (match_score a))"

definition sortedJobs :: "(js_string \<Rightarrow> js_number) \<Rightarrow> sort_mode \<Rightarrow> job list \<Rightarrow> job list" where
  "sortedJobs getTime mode jobs = Array_sort (comparator getTime mode) jobs"

section \<open>Pagination\<close>

text \<open>
  \<open>Array.prototype.slice(start, end)\<close>: a negative index counts from the end, both
  indices are cut to the range of the array, and an empty range gives the empty array.
\<close>

definition slice :: "'a list \<Rightarrow> int \<Rightarrow> int \<Rightarrow> 'a list" where
  "slice xs start end =
     (let len = int (length xs);
          k = (if start < 0 then max (len + start) 0 else min start len);
          final = (if end < 0 then max (len + end) 0 else min end len)
      in take (nat (final - k)) (drop (nat k) xs))"

definition paginatedJobs :: "'a list \<Rightarrow> int \<Rightarrow> 'a list" where
  "paginatedJobs sjobs page =
     (let start = (page - 1) * itemsPerPage
      in slice sjobs start (start + itemsPerPage))"

text \<open>\<open>Math.ceil(sortedJobs.length / itemsPerPage)\<close>.\<close>

definition totalPages :: "'a list \<Rightarrow> int" where
  "totalPages sjobs = \<lceil>(of_nat (length sjobs) :: rat) / of_int itemsPerPage\<rceil>"






section \<open>Reference notions and sample data\<close>

text \<open>
  \<open>descending_by key\<close>: no element is followed by one with a larger key.
  \<open>timeValue\<close> reads the number of a time value that is not \<open>NaN\<close>.
\<close>

definition descending_by :: "('a \<Rightarrow> rat) \<Rightarrow> 'a list \<Rightarrow> bool" where
  "descending_by key xs = sorted_wrt (\<lambda>a b. key b \<le> key a) xs"

fun timeValue :: "js_number \<Rightarrow> rat" where
  "timeValue (Num v) = v"
| "timeValue NaN = 0"

text \<open>
  The specification's reading of the date order, kept apart from \<open>postedTime\<close> for
  comparison: a job without a date counts as posted at the earliest date a JavaScript
  \<open>Date\<close> can hold, 100 000 000 days before the epoch.
\<close>

definition earliest_time :: rat where
  "earliest_time = - 8640000000000000"

definition postedTime_missing_earliest :: "(js_string \<Rightarrow> js_number) \<Rightarrow> job \<Rightarrow> rat" where
  "postedTime_missing_earliest getTime j =
     (case posted_date j of None \<Rightarrow> earliest_time | Some s \<Rightarrow> timeValue (getTime s))"

definition date_descending_missing_earliest ::
  "(js_string \<Rightarrow> js_number) \<Rightarrow> job list \<Rightarrow> bool" where
  "date_descending_missing_earliest getTime js =
     descending_by (postedTime_missing_earliest getTime) js"


text \<open>
  Two jobs that differ in their posting date only: one has none, the other was posted
  on 31 December 1969. \<open>new Date('1969-12-31').getTime()\<close> is \<open>-86400000\<close>, since a
  date-only ISO string is midnight UTC; \<open>getTime_example\<close> gives the runtime's answer for
  that string (no other string is asked for in the examples).
\<close>

definition job_undated :: job where
  "job_undated = \<lparr>ident = lit ''a1'', title = lit ''Clerk'', company = lit ''Acme'',
     job_location = lit ''Remote'', job_type = lit ''full-time'', description = [],
     salary_min = None, salary_max = Some 50000, url = [], source = lit ''api'',
     match_score = Some 80, posted_date = None\<rparr>"

definition job_1969 :: job where
  "job_1969 = job_undated\<lparr>ident := lit ''b2'', salary_max := None,
     posted_date := Some (lit ''1969-12-31'')\<rparr>"

definition getTime_example :: "js_string \<Rightarrow> js_number" where
  "getTime_example s = (if s = lit ''1969-12-31'' then Num (- 86400000) else NaN)"

section \<open>Properties\<close>

subsection \<open>Auxiliary facts\<close>

lemma totalPages_div: "totalPages xs = (int (length xs) + 9) div 10"
proof -
  have "(of_nat (length xs) :: rat) / of_int 10 = of_int (int (length xs)) / of_int 10"
    by simp
  then have "totalPages xs = - ((- int (length xs)) div 10)"
    unfolding totalPages_def itemsPerPage_def by (simp only: ceiling_divide_eq_div)
  then show ?thesis by presburger
qed

lemma mset_insert_sorted: "mset (insert_sorted f x ys) = add_mset x (mset ys)"
  by (induction ys) auto

lemma mset_Array_sort: "mset (Array_sort f xs) = mset xs"
  by (induction xs) (auto simp: Array_sort_def mset_insert_sorted)

lemma length_Array_sort: "length (Array_sort f xs) = length xs"
  using mset_Array_sort [of f xs] by (metis size_mset)

lemma set_Array_sort: "set (Array_sort f xs) = set xs"
  using mset_Array_sort [of f xs] by (metis set_mset_mset)

text \<open>
  Inserting into a descending list keeps it descending, when the comparator agrees with
  the key on the elements involved.
\<close>

lemma descending_insert_sorted:
  assumes agree: "\<forall>a\<in>insert x (set ys). \<forall>b\<in>insert x (set ys).
                    sortCompare f a b \<le> 0 \<longleftrightarrow> key b \<le> key a"
    and desc: "descending_by key ys"
  shows "descending_by key (insert_sorted f x ys)"
  using assms
proof (induction ys)
  case Nil
  then show ?case by (simp add: descending_by_def)
next
  case (Cons y ys)
  show ?case
  proof (cases "sortCompare f x y \<le> 0")
    case True
    with Cons.prems have "key y \<le> key x" by simp
    with True Cons.prems show ?thesis by (auto simp: descending_by_def)
  next
    case False
    with Cons.prems have xy: "key x \<le> key y" by auto
    have ih: "descending_by key (insert_sorted f x ys)"
      using Cons.IH Cons.prems by (auto simp: descending_by_def)
    have "set (insert_sorted f x ys) = insert x (set ys)"
      using mset_insert_sorted [of f x ys] by (metis set_mset_mset set_mset_add_mset_insert)
    with False xy ih Cons.prems show ?thesis by (auto simp: descending_by_def)
  qed
qed

lemma descending_Array_sort:
  assumes "\<forall>a\<in>set xs. \<forall>b\<in>set xs. sortCompare f a b \<le> 0 \<longleftrightarrow> key b \<le> key a"
  shows "descending_by key (Array_sort f xs)"
  using assms
proof (induction xs)
  case Nil
  then show ?case by (simp add: Array_sort_def descending_by_def)
next
  case (Cons x xs)
  have ih: "descending_by key (Array_sort f xs)"
    using Cons by auto
  have "descending_by key (insert_sorted f x (Array_sort f xs))"
    by (rule descending_insert_sorted) (use Cons.prems ih in \<open>auto simp: set_Array_sort\<close>)
  then show ?case by (simp add: Array_sort_def)
qed

text \<open>
  The sort is stable: the elements of one key keep the order they had. With the two facts
  above this fixes the result for a comparator that agrees with a key.
\<close>

lemma filter_insert_sorted:
  assumes "\<forall>a\<in>insert x (set ys). \<forall>b\<in>insert x (set ys).
             sortCompare f a b \<le> 0 \<longleftrightarrow> key b \<le> (key a :: rat)"
  shows "filter (\<lambda>y. key y = k) (insert_sorted f x ys) = filter (\<lambda>y. key y = k) (x # ys)"
  using assms
proof (induction ys)
  case Nil
  then show ?case by simp
next
  case (Cons y ys)
  show ?case
  proof (cases "sortCompare f x y \<le> 0")
    case True
    then show ?thesis by simp
  next
    case False
    with Cons.prems have "key x \<noteq> key y" by auto
    moreover have "filter (\<lambda>y. key y = k) (insert_sorted f x ys)
                   = filter (\<lambda>y. key y = k) (x # ys)"
      using Cons.IH Cons.prems by auto
    ultimately show ?thesis using False by auto
  qed
qed

lemma stable_Array_sort:
  assumes "\<forall>a\<in>set xs. \<forall>b\<in>set xs. sortCompare f a b \<le> 0 \<longleftrightarrow> key b \<le> (key a :: rat)"
  shows "filter (\<lambda>y. key y = k) (Array_sort f xs) = filter (\<lambda>y. key y = k) xs"
  using assms
proof (induction xs)
  case Nil
  then show ?case by (simp add: Array_sort_def)
next
  case (Cons x xs)
  have ih: "filter (\<lambda>y. key y = k) (Array_sort f xs) = filter (\<lambda>y. key y = k) xs"
    using Cons by auto
  have "filter (\<lambda>y. key y = k) (insert_sorted f x (Array_sort f xs))
        = filter (\<lambda>y. key y = k) (x # Array_sort f xs)"
    by (rule filter_insert_sorted) (use Cons.prems in \<open>auto simp: set_Array_sort\<close>)
  with ih show ?case by (simp add: Array_sort_def)
qed

text \<open>From page 1 on, a page is the next ten elements.\<close>

lemma paginatedJobs_take_drop:
  assumes "1 \<le> p"
  shows "paginatedJobs xs p = take 10 (drop (10 * nat (p - 1)) xs)"
proof -
  have "nat ((p - 1) * 10) = 10 * nat (p - 1)"
    using assms by (simp add: nat_mult_distrib)
  then show ?thesis
    using assms
    by (auto simp: paginatedJobs_def slice_def itemsPerPage_def Let_def min_def max_def)
qed

lemma length_paginatedJobs: "length (paginatedJobs xs p) \<le> 10"
  by (auto simp: paginatedJobs_def slice_def itemsPerPage_def Let_def min_def max_def)

lemma concat_pages: "concat (map (paginatedJobs xs) [1..int n]) = take (10 * n) xs"
proof (induction n)
  case 0
  then show ?case by simp
next
  case (Suc n)
  have "[1..int (Suc n)] = [1..int n] @ [int n + 1]"
    using upto_rec2 [of 1 "int (Suc n)"] by (simp add: add.commute)
  moreover have "paginatedJobs xs (int n + 1) = take 10 (drop (10 * n) xs)"
    using paginatedJobs_take_drop [of "int n + 1" xs] by simp
  ultimately show ?case
    using Suc by (simp add: take_add [symmetric] add.commute)
qed

lemma concat_all_pages: "concat (map (paginatedJobs xs) [1..totalPages xs]) = xs"
proof -
  have "0 \<le> totalPages xs"
    by (simp add: totalPages_div)
  then have "concat (map (paginatedJobs xs) [1..totalPages xs]) =
             take (10 * nat (totalPages xs)) xs"
    using concat_pages [of xs "nat (totalPages xs)"] by simp
  moreover have "length xs \<le> 10 * nat (totalPages xs)"
    unfolding totalPages_div by linarith
  ultimately show ?thesis by simp
qed




subsection \<open>Pagination\<close>

text \<open>
  Claim C1. For a list of N jobs sorted in any mode, the page count is the ceiling of
  N / 10, the pages 1 to page count are that many, every page (whatever the index) has at
  most 10 items, and the pages 1 to page count, one after the other, are the sorted list.
\<close>

theorem pagination_covers_sorted_jobs:
  "totalPages (sortedJobs getTime mode jobs) = \<lceil>(of_nat (length jobs) :: rat) / 10\<rceil>
   \<and> length (map (paginatedJobs (sortedJobs getTime mode jobs))
               [1..totalPages (sortedJobs getTime mode jobs)])
       = nat \<lceil>(of_nat (length jobs) :: rat) / 10\<rceil>
   \<and> (\<forall>page. length (paginatedJobs (sortedJobs getTime mode jobs) page) \<le> 10)
   \<and> concat (map (paginatedJobs (sortedJobs getTime mode jobs))
               [1..totalPages (sortedJobs getTime mode jobs)])
       = sortedJobs getTime mode jobs"
proof -
  have len: "length (sortedJobs getTime mode jobs) = length jobs"
    by (simp add: sortedJobs_def length_Array_sort)
  have tp: "totalPages (sortedJobs getTime mode jobs) = \<lceil>(of_nat (length jobs) :: rat) / 10\<rceil>"
    by (simp add: totalPages_def itemsPerPage_def len)
  have n: "length (map (paginatedJobs (sortedJobs getTime mode jobs))
               [1..totalPages (sortedJobs getTime mode jobs)])
       = nat \<lceil>(of_nat (length jobs) :: rat) / 10\<rceil>"
    by (simp add: tp)
  from tp n length_paginatedJobs concat_all_pages show ?thesis by blast
qed




subsection \<open>Ranking\<close>

text \<open>
  Claim C7. Sorting by salary gives a permutation of the jobs: the same records, each as
  often as before (so with every field as it was), the same set and the same number.
\<close>

theorem salary_sort_is_permutation:
  "mset (sortedJobs getTime Salary jobs) = mset jobs
   \<and> set (sortedJobs getTime Salary jobs) = set jobs
   \<and> length (sortedJobs getTime Salary jobs) = length jobs"
  by (simp add: sortedJobs_def mset_Array_sort set_Array_sort length_Array_sort)

text \<open>
  Claim C2, as the code has it. In every mode the result is a permutation of the jobs.
  In the mode relevance it is descending by match score, a missing score counting as 0;
  in the mode salary it is descending by maximum salary, a missing maximum counting
  as 0; in the mode date, when every date that is present parses, it is descending by the
  time value of the posting date, a missing or empty date counting as time value 0, the
  epoch.
\<close>

theorem sortedJobs_descending:
  "descending_by (\<lambda>j. case match_score j of None \<Rightarrow> 0 | Some v \<Rightarrow> v)
      (sortedJobs getTime Relevance jobs)
   \<and> descending_by (\<lambda>j. case salary_max j of None \<Rightarrow> 0 | Some v \<Rightarrow> v)
      (sortedJobs getTime Salary jobs)
   \<and> ((\<forall>j\<in>set jobs. postedTime getTime j \<noteq> NaN) \<longrightarrow>
        descending_by (\<lambda>j. case posted_date j of None \<Rightarrow> 0
                            | Some s \<Rightarrow> if s = [] then 0 else timeValue (getTime s))
          (sortedJobs getTime Date jobs))
   \<and> mset (sortedJobs getTime mode jobs) = mset jobs"
proof -
  have k: "\<And>x. or0 x = (case x of None \<Rightarrow> 0 | Some v \<Rightarrow> v)"
    by (simp add: or0_def split: option.splits)
  have r: "descending_by (\<lambda>j. case match_score j of None \<Rightarrow> 0 | Some v \<Rightarrow> v)
      (sortedJobs getTime Relevance jobs)"
    unfolding sortedJobs_def
    by (rule descending_Array_sort) (simp add: sortCompare_def k)
  have s: "descending_by (\<lambda>j. case salary_max j of None \<Rightarrow> 0 | Some v \<Rightarrow> v)
      (sortedJobs getTime Salary jobs)"
    unfolding sortedJobs_def
    by (rule descending_Array_sort) (simp add: sortCompare_def k)
  have d: "descending_by (\<lambda>j. case posted_date j of None \<Rightarrow> 0
                            | Some s \<Rightarrow> if s = [] then 0 else timeValue (getTime s))
          (sortedJobs getTime Date jobs)"
    if v: "\<forall>j\<in>set jobs. postedTime getTime j \<noteq> NaN"
    unfolding sortedJobs_def
  proof (rule descending_Array_sort, intro ballI)
    fix a b
    assume "a \<in> set jobs" "b \<in> set jobs"
    with v obtain u w where u: "postedTime getTime a = Num u"
      and w: "postedTime getTime b = Num w"
      by (metis js_number.exhaust)
    have e: "\<And>j t. postedTime getTime j = Num t \<Longrightarrow>
               (case posted_date j of None \<Rightarrow> 0
                | Some s \<Rightarrow> if s = [] then 0 else timeValue (getTime s)) = t"
      by (auto simp: postedTime_def split: option.splits if_splits)
    show "sortCompare (comparator getTime Date) a b \<le> 0 \<longleftrightarrow>
            (case posted_date b of None \<Rightarrow> 0
             | Some s \<Rightarrow> if s = [] then 0 else timeValue (getTime s))
            \<le> (case posted_date a of None \<Rightarrow> 0
                | Some s \<Rightarrow> if s = [] then 0 else timeValue (getTime s))"
      by (simp add: e [OF u] e [OF w] sortCompare_def u w)
  qed
  have m: "mset (sortedJobs getTime mode jobs) = mset jobs"
    by (simp add: sortedJobs_def mset_Array_sort)
  from r s d m show ?thesis by blast
qed

theorem sortedJobs_descending_witness:
  "postedTime getTime_example job_1969 = Num (- 86400000)
   \<and> postedTime getTime_example job_undated = Num 0
   \<and> descending_by (\<lambda>j. case posted_date j of None \<Rightarrow> 0
                        | Some s \<Rightarrow> if s = [] then 0 else timeValue (getTime_example s))
        (sortedJobs getTime_example Date [job_1969, job_undated])
   \<and> descending_by (\<lambda>j. case salary_max j of None \<Rightarrow> 0 | Some v \<Rightarrow> v)
        (sortedJobs getTime_example Salary [job_1969, job_undated])"
proof -
  have h: "\<forall>j\<in>set [job_1969, job_undated]. postedTime getTime_example j \<noteq> NaN"
    by (simp add: postedTime_def job_1969_def job_undated_def getTime_example_def lit_def)
  have t: "postedTime getTime_example job_1969 = Num (- 86400000)
           \<and> postedTime getTime_example job_undated = Num 0"
    by (simp add: postedTime_def job_1969_def job_undated_def getTime_example_def lit_def)
  from h t sortedJobs_descending [of getTime_example "[job_1969, job_undated]"]
  show ?thesis by blast
qed

text \<open>
  Claim C2 as stated fails in the mode date: a job without a date is ranked as posted at
  the epoch, not at the earliest possible date. It comes before a job posted on
  31 December 1969, which a descending order with the missing date as the earliest
  one would put first.
\<close>

theorem date_missing_earliest_counterexample:
  "sortedJobs getTime_example Date [job_1969, job_undated] = [job_undated, job_1969]
   \<and> posted_date job_undated = None
   \<and> posted_date job_1969 = Some (lit ''1969-12-31'')
   \<and> \<not> date_descending_missing_earliest getTime_example
         (sortedJobs getTime_example Date [job_1969, job_undated])"
  by (simp add: sortedJobs_def Array_sort_def sortCompare_def postedTime_def job_1969_def
      job_undated_def getTime_example_def lit_def date_descending_missing_earliest_def
      descending_by_def postedTime_missing_earliest_def earliest_time_def)

subsection \<open>Saved-jobs toggle\<close>

text \<open>
  Claim C4. One toggle removes the identifier from the saved set when it is there and
  adds it otherwise, and toggling the same identifier twice gives back the state the
  view started from.
\<close>

theorem toggleSaveJob_involution:
  "savedJobs (snd (toggleSaveJob jobId st)) =
     (if jobId \<in> savedJobs st then savedJobs st - {jobId} else insert jobId (savedJobs st))
   \<and> snd (toggleSaveJob jobId (snd (toggleSaveJob jobId st))) = st"
  by (auto simp: toggleSaveJob_def insert_absorb)

subsection \<open>Sort-mode change\<close>

text \<open>
  Claim C10. Changing the sort mode, whatever the state and the mode chosen, stores the
  mode and puts the current page index back to 1.
\<close>

theorem onSortChange_resets_page:
  "currentPage (onSortChange m st) = 1 \<and> sortBy (onSortChange m st) = m"
  by (simp add: onSortChange_def)

subsection \<open>Search validation\<close>

lemma trim_eq_Nil_iff: "trim s = [] \<longleftrightarrow> (\<forall>c\<in>set s. isWhiteSpace c)"
proof -
  have "trim s = [] \<longleftrightarrow> dropWhile isWhiteSpace (rev (dropWhile isWhiteSpace s)) = []"
    by (simp add: trim_def)
  also have "\<dots> \<longleftrightarrow> (\<forall>c\<in>set (dropWhile isWhiteSpace s). isWhiteSpace c)"
    by simp
  also have "\<dots> \<longleftrightarrow> (\<forall>c\<in>set s. isWhiteSpace c)"
  proof
    assume a: "\<forall>c\<in>set (dropWhile isWhiteSpace s). isWhiteSpace c"
    show "\<forall>c\<in>set s. isWhiteSpace c"
    proof (cases "dropWhile isWhiteSpace s")
      case Nil
      then show ?thesis by simp
    next
      case (Cons y ys)
      then have "\<not> isWhiteSpace y" by (metis hd_dropWhile list.sel(1) list.distinct(1))
      with a Cons show ?thesis by simp
    qed
  next
    assume "\<forall>c\<in>set s. isWhiteSpace c"
    then show "\<forall>c\<in>set (dropWhile isWhiteSpace s). isWhiteSpace c"
      using set_dropWhileD by fastforce
  qed
  finally show ?thesis .
qed

text \<open>
  Claim C5. When the keywords are empty or hold white space only, \<open>handleSearch\<close> issues no
  search request, shows the error toast and leaves the state as it was; a search request
  is issued exactly when the keywords hold a character that is not white space, so only
  when they are non-empty.
\<close>

theorem handleSearch_validation:
  "((\<forall>c\<in>set (keywords st). isWhiteSpace c) \<longrightarrow>
      handleSearch st = ([ToastError (lit ''Please enter job keywords'')], st))
   \<and> (Refetch \<in> set (fst (handleSearch st)) \<longleftrightarrow>
        keywords st \<noteq> [] \<and> (\<exists>c\<in>set (keywords st). \<not> isWhiteSpace c))"
  by (auto simp: handleSearch_def trim_eq_Nil_iff)

theorem handleSearch_validation_witness:
  "handleSearch (initial_state\<lparr>keywords := lit ''  ''\<rparr>) =
     ([ToastError (lit ''Please enter job keywords'')], initial_state\<lparr>keywords := lit ''  ''\<rparr>)
   \<and> Refetch \<notin> set (fst (handleSearch initial_state))
   \<and> Refetch \<in> set (fst (handleSearch (initial_state\<lparr>keywords := lit ''a b''\<rparr>)))"
  using handleSearch_validation [of "initial_state\<lparr>keywords := lit ''  ''\<rparr>"]
    handleSearch_validation [of initial_state]
    handleSearch_validation [of "initial_state\<lparr>keywords := lit ''a b''\<rparr>"]
  by (simp add: lit_def isWhiteSpace_def initial_state_def)

subsection \<open>A new search starts at page 1\<close>

text \<open>
  Claim C9. Whatever the state, when \<open>handleSearch\<close> issues a search the current page is 1
  in the state it leaves, which is set before the request is awaited.
\<close>

theorem handleSearch_resets_page:
  "Refetch \<in> set (fst (handleSearch st)) \<Longrightarrow> currentPage (snd (handleSearch st)) = 1"
  by (auto simp: handleSearch_def split: if_splits)

theorem handleSearch_resets_page_witness:
  "Refetch \<in> set (fst (handleSearch (initial_state\<lparr>keywords := lit ''nurse'', currentPage := 3\<rparr>)))
   \<and> currentPage (snd (handleSearch (initial_state\<lparr>keywords := lit ''nurse'', currentPage := 3\<rparr>))) = 1"
proof -
  have h: "Refetch \<in> set (fst (handleSearch (initial_state\<lparr>keywords := lit ''nurse'', currentPage := 3\<rparr>)))"
    by (simp add: handleSearch_def trim_def lit_def isWhiteSpace_def initial_state_def)
  from h handleSearch_resets_page [OF h] show ?thesis by simp
qed

subsection \<open>Submitting an application\<close>

text \<open>
  Claim C8. When the job identifier of the submission is absent or empty,
  \<open>handleApplySubmit\<close> issues no request at all (in particular no create-application
  request) and leaves the state as it was.
\<close>

theorem handleApplySubmit_rejects_empty:
  "applyingJobId st = None \<or> applyingJobId st = Some [] \<Longrightarrow>
     fst (handleApplySubmit st) = [] \<and> snd (handleApplySubmit st) = st"
  by (auto simp: handleApplySubmit_def)

theorem handleApplySubmit_rejects_empty_witness:
  "(applyingJobId initial_state = None \<or> applyingJobId initial_state = Some [])
   \<and> fst (handleApplySubmit initial_state) = []
   \<and> snd (handleApplySubmit initial_state) = initial_state
   \<and> fst (handleApplySubmit (handleApplyClick [] initial_state)) = []"
proof -
  have h1: "applyingJobId initial_state = None \<or> applyingJobId initial_state = Some []"
    by (simp add: initial_state_def)
  have h2: "applyingJobId (handleApplyClick [] initial_state) = None
            \<or> applyingJobId (handleApplyClick [] initial_state) = Some []"
    by (simp add: handleApplyClick_def)
  from h1 handleApplySubmit_rejects_empty [OF h1] handleApplySubmit_rejects_empty [OF h2]
  show ?thesis by simp
qed

text \<open>
  Claim C6. When the create-application request resolves, the form is closed, the note
  is emptied, the success toast is shown and the cached \<open>applications\<close> queries are
  invalidated. When it rejects, the only effect is an error toast with the message of
  the rejection, or with the fixed fallback text when that message is absent or empty;
  the state is untouched, so the form stays open and the same submission can be
  issued again.
\<close>

theorem createApplication_callbacks:
  "showApplyModal (snd (settle Resolved st)) = False
   \<and> applyNotes (snd (settle Resolved st)) = []
   \<and> fst (settle Resolved st) =
       [ToastSuccess (lit ''Application created!''), InvalidateQueries [lit ''applications'']]
   \<and> snd (settle (Rejected e) st) = st
   \<and> fst (settle (Rejected e) st) =
       [ToastError (case message e of
                      None \<Rightarrow> lit ''Failed to create application''
                    | Some m \<Rightarrow> if m = [] then lit ''Failed to create application'' else m)]
   \<and> handleApplySubmit (snd (settle (Rejected e) st)) = handleApplySubmit st"
  by (simp add: onSuccess_def onError_def or_else_def)

end
